theory Spec2Isabelle
  imports Main
begin

section \<open>The external chain-state provider for EVM networks\<close>

text \<open>
  A shallow embedding of the class \<^verbatim>\<open>BaseEVMExternalStateProvider\<close>
  (\<^verbatim>\<open>packages/bitcore-node/src/routes/index.ts\<close>, lines 115 to 541).
  Every awaited call is a value of a sum type: \<open>Inl\<close> is a rejected promise (a thrown
  error), \<open>Inr\<close> a fulfilled one. Block heights, limits and fee values are JavaScript
  numbers that hold integers; they are modelled as \<open>int\<close>, so the rounding of IEEE doubles
  beyond \<open>2 ^ 53\<close> is outside the model.
\<close>

subsection \<open>Errors and loosely typed values\<close>

datatype error =
    MissingRequiredParam          \<comment> \<open>\<^verbatim>\<open>new Error('Missing required param')\<close>\<close>
  | MissingChainNetwork           \<comment> \<open>\<^verbatim>\<open>new Error('Missing required chain and/or network param')\<close>\<close>
  | InvalidBlockId                \<comment> \<open>\<^verbatim>\<open>new Error('invalid block id provided')\<close>\<close>
  | CouldNotGetBlock string       \<comment> \<open>\<^verbatim>\<open>new Error(`Could not get block ${query.block}`)\<close>\<close>
  | MissingWallet                 \<comment> \<open>\<^verbatim>\<open>new Error('Missing wallet')\<close>\<close>
  | TypeError string              \<comment> \<open>a runtime \<^verbatim>\<open>TypeError\<close> of the language\<close>
  | Upstream string               \<comment> \<open>any failure raised by a collaborator\<close>
  | NonIntegerHeight              \<comment> \<open>no error of the source: it goes on with a fractional or
                                      infinite height, which the model does not follow\<close>

datatype jsval = JUndefined | JNull | JNum int | JStr string | JObj "(string \<times> jsval) list"

text \<open>\<^verbatim>\<open>v?.k\<close>: optional chaining followed by a property read.\<close>

fun opt_prop :: "jsval \<Rightarrow> string \<Rightarrow> jsval" where
  "opt_prop (JObj kvs) k = (case map_of kvs k of None \<Rightarrow> JUndefined | Some v \<Rightarrow> v)"
| "opt_prop _ k = JUndefined"

type_synonym date = int \<comment> \<open>a \<^verbatim>\<open>Date\<close>, as milliseconds since the epoch\<close>

text \<open>
  Modelled from the spec: the type \<^verbatim>\<open>IProvider['dataType']\<close> is declared in a module
  that is not among the sources; the capability tag of a handle is one of
  \<^verbatim>\<open>historical\<close>, \<^verbatim>\<open>combined\<close> and \<^verbatim>\<open>node\<close>.
\<close>

datatype dataType = Historical | Combined | Node

subsection \<open>Records of the network peer client\<close>

record raw_block =
  rb_height :: "int option"        \<comment> \<open>\<^verbatim>\<open>block.height\<close>, absent on blocks of the peer client\<close>
  rb_number :: int
  rb_hash :: string
  rb_timestamp :: int
  rb_parentHash :: string
  rb_transactions :: "string list"
  rb_size :: int
  rb_nonce :: string
  rb_difficulty :: int
  rb_gasUsed :: int
  rb_gasLimit :: int
  rb_baseFeePerGas :: "int option"

record receipt =
  rc_gasUsed :: int

record raw_tx =
  tx_hash :: string
  tx_blockNumber :: "int option"   \<comment> \<open>\<^verbatim>\<open>null\<close> while the transaction is pending\<close>
  tx_block_number :: "int option"
  tx_blockHash :: "string option"
  tx_block_hash :: "string option"
  tx_blockTime :: "date option"
  tx_block_timestamp :: "date option"
  tx_blockTimeNormalized :: "date option"
  tx_fee :: "int option option"    \<comment> \<open>absent, or a number; the inner \<open>None\<close> is \<^verbatim>\<open>NaN\<close>\<close>
  tx_value :: int
  tx_gasLimit :: "int option"
  tx_gas :: "int option"
  tx_gasPrice :: "string option"
  tx_gas_price :: "string option"
  tx_nonce :: int
  tx_to :: "string option"
  tx_to_address :: "string option"
  tx_from :: "string option"
  tx_from_address :: "string option"
  tx_data :: "string option"
  tx_effects :: "string option"
  tx_receipt :: "receipt option"

record feeHistory =
  baseFeePerGas :: "int list"
  reward :: "int list list"

datatype block_ref = Latest | ByNumber int | ByHash string | NullRef

record web3 =
  eth_getBlockNumber :: "error + int"
  eth_getChainId :: "error + int"
  eth_getBlock :: "block_ref \<Rightarrow> error + raw_block option"
  eth_getFeeHistory :: "int \<Rightarrow> int \<Rightarrow> int list \<Rightarrow> error + feeHistory"
  eth_getTransaction :: "string \<Rightarrow> error + raw_tx option"
  eth_getTransactionReceipt :: "string \<Rightarrow> error + receipt option"

record wallet_address =
  address :: string

text \<open>
  The collaborators of one provider instance, for a fixed chain and network. The field
  \<open>getWeb3_outcome\<close> is the handle that \<^verbatim>\<open>this.getWeb3(network, {type})\<close> resolves to
  (the pool behind it is modelled on its own below). \<open>getBlockNumberByDate\<close>,
  \<open>getBlockNumberByBlockId\<close> and \<open>getNativeBalanceByBlock\<close> only forward to the external
  historical data API and are taken at the level of what they resolve to.
  \<open>unixToDate\<close>, \<open>getNthQuartileMedian\<close> and \<open>getWalletAddresses\<close> live in modules that are
  not part of the sources at hand.
\<close>

record env =
  getWeb3_outcome :: "dataType option \<Rightarrow> error + web3"
  unixToDate :: "int \<Rightarrow> date"
  getNthQuartileMedian :: "int list \<Rightarrow> int \<Rightarrow> error + int"
  getWalletAddresses :: "string \<Rightarrow> error + wallet_address list"
  getBlockNumberByDate :: "date \<Rightarrow> error + int option"
  getBlockNumberByBlockId :: "string \<Rightarrow> error + int option"
  getNativeBalanceByBlock :: "int option \<Rightarrow> string list \<Rightarrow> error + jsval"

subsection \<open>getFee\<close>

record getFee_params =
  gf_network :: "string option"
  gf_target :: "int option"

record fee_estimate =
  feerate :: int
  blocks :: int

text \<open>\<^verbatim>\<open>let { network, target = 4 } = params\<close>\<close>

definition getFee_target :: "getFee_params \<Rightarrow> int" where
  "getFee_target p = (case gf_target p of None \<Rightarrow> 4 | Some t \<Rightarrow> t)"

text \<open>\<^verbatim>\<open>Math.min(target, 4) || 1\<close>: only \<open>0\<close> is falsy among the integers.\<close>

definition whichQuartile :: "int \<Rightarrow> int" where
  "whichQuartile target = (let m = min target 4 in if m = 0 then 1 else m)"

text \<open>
  The loop that fills \<^verbatim>\<open>gasPrices\<close>; it runs over the shorter of the two arrays.
  \<^verbatim>\<open>BigInt(undefined)\<close> throws when a reward row is empty.
\<close>

fun gasPrices_loop :: "int list \<Rightarrow> int list list \<Rightarrow> error + int list" where
  "gasPrices_loop (b # bs) (r # rs) =
     (case r of
        [] \<Rightarrow> Inl (TypeError ''Cannot convert undefined to a BigInt'')
      | x # _ \<Rightarrow> (case gasPrices_loop bs rs of
                    Inl e \<Rightarrow> Inl e
                  | Inr ps \<Rightarrow> Inr ((b + x) # ps)))"
| "gasPrices_loop _ _ = Inr []"

definition getFee :: "env \<Rightarrow> getFee_params \<Rightarrow> error + fee_estimate" where
  "getFee e p =
     (let target = getFee_target p in
      case getWeb3_outcome e (Some Historical) of
        Inl err \<Rightarrow> Inl err
      | Inr w3 \<Rightarrow>
      (case eth_getBlockNumber w3 of
        Inl err \<Rightarrow> Inl err
      | Inr latestBlock \<Rightarrow>
      (case eth_getFeeHistory w3 (20 * 200) latestBlock [25] of
        Inl err \<Rightarrow> Inl err
      | Inr fh \<Rightarrow>
      (case gasPrices_loop (baseFeePerGas fh) (reward fh) of
        Inl err \<Rightarrow> Inl err
      | Inr gasPrices \<Rightarrow>
      (case getNthQuartileMedian e (rev (sort gasPrices)) (whichQuartile target) of
        Inl err \<Rightarrow> Inl err
      | Inr quartileMedian \<Rightarrow> Inr \<lparr>feerate = quartileMedian, blocks = target\<rparr>)))))"

subsection \<open>getWalletBalanceAtTime\<close>

record wallet =
  wallet_id :: "string option"     \<comment> \<open>\<^verbatim>\<open>wallet._id\<close>\<close>

record balance_params =
  gwb_network :: "string option"
  gwb_time :: date
  gwb_wallet :: "wallet option"

record wallet_balance =
  unconfirmed :: int
  confirmed :: jsval
  balance :: jsval

text \<open>The \<^verbatim>\<open>catch\<close> block logs the error and throws it again.\<close>

definition getWalletBalanceAtTime :: "env \<Rightarrow> balance_params \<Rightarrow> error + wallet_balance" where
  "getWalletBalanceAtTime e p =
     (case gwb_wallet p of
        None \<Rightarrow> Inl MissingWallet
      | Some w \<Rightarrow>
      (case wallet_id w of
        None \<Rightarrow> Inl MissingWallet
      | Some wid \<Rightarrow>
      (case getWalletAddresses e wid of
        Inl err \<Rightarrow> Inl err
      | Inr addys \<Rightarrow>
      (let addresses = map address addys in
       case getBlockNumberByDate e (gwb_time p) of
        Inl err \<Rightarrow> Inl err
      | Inr block \<Rightarrow>
      (case getNativeBalanceByBlock e block addresses of
        Inl err \<Rightarrow> Inl err
      | Inr result \<Rightarrow>
          Inr \<lparr>unconfirmed = 0,
               confirmed = opt_prop result ''total_balance'',
               balance = opt_prop result ''total_balance''\<rparr>)))))"

subsection \<open>Strings and numbers of the language\<close>

text \<open>
  A string is a list of code units below 256. A number that comes out of a string is
  \<open>NaN\<close>, an infinity (\<open>Infinity True\<close> is the negative one) or an exact decimal:
  \<open>Dec m e\<close> stands for \<open>m * 10 ^ e\<close>. Parsing and printing agree with the language on
  every decimal of at most 15 significant digits within the range of a double.
\<close>

datatype jsnum = NaN | Infinity bool | Dec int int

definition isStrWhiteSpace :: "char \<Rightarrow> bool" where
  "isStrWhiteSpace c = (List.member [9, 10, 11, 12, 13, 32, 160] (of_char c :: nat))"

definition isDigit :: "char \<Rightarrow> bool" where
  "isDigit c = (48 \<le> (of_char c :: nat) \<and> (of_char c :: nat) \<le> 57)"

definition digitVal :: "char \<Rightarrow> nat" where
  "digitVal c = of_char c - 48"

definition digit_char :: "nat \<Rightarrow> char" where
  "digit_char d = ''0123456789'' ! d"

definition digits_value :: "string \<Rightarrow> nat" where
  "digits_value ds = foldl (\<lambda>a c. 10 * a + digitVal c) 0 ds"

fun show_nat :: "nat \<Rightarrow> string" where
  "show_nat n = (if n < 10 then [digit_char n] else show_nat (n div 10) @ [digit_char (n mod 10)])"

declare show_nat.simps [simp del]

text \<open>
  \<^verbatim>\<open>parseInt(s, 10)\<close>: leading white space and one sign are skipped, then the longest
  run of decimal digits is read; \<open>None\<close> is \<^verbatim>\<open>NaN\<close>.
\<close>

definition parseInt10 :: "string \<Rightarrow> int option" where
  "parseInt10 s =
     (let t = dropWhile isStrWhiteSpace s;
          neg = (case t of [] \<Rightarrow> False | c # cs \<Rightarrow> c = CHR ''-'');
          u = (case t of [] \<Rightarrow> [] | c # cs \<Rightarrow> if c = CHR ''+'' \<or> c = CHR ''-'' then cs else t);
          z = takeWhile isDigit u
      in if z = [] then None
         else Some (if neg then - int (digits_value z) else int (digits_value z)))"

text \<open>\<^verbatim>\<open>Number(s)\<close> on a string, after the grammar of numeric string literals.\<close>

definition trimString :: "string \<Rightarrow> string" where
  "trimString s = rev (dropWhile isStrWhiteSpace (rev (dropWhile isStrWhiteSpace s)))"

definition radixVal :: "char \<Rightarrow> nat" where
  "radixVal c =
     (let n = (of_char c :: nat) in
      if 48 \<le> n \<and> n \<le> 57 then n - 48
      else if 97 \<le> n \<and> n \<le> 102 then n - 87
      else if 65 \<le> n \<and> n \<le> 70 then n - 55
      else 16)"

definition radixLiteral :: "nat \<Rightarrow> string \<Rightarrow> jsnum" where
  "radixLiteral r ds =
     (if ds \<noteq> [] \<and> list_all (\<lambda>c. radixVal c < r) ds
      then Dec (int (foldl (\<lambda>a c. r * a + radixVal c) 0 ds)) 0
      else NaN)"

definition exponentPart :: "string \<Rightarrow> int option" where
  "exponentPart r =
     (case r of
        [] \<Rightarrow> Some 0
      | c # cs \<Rightarrow>
          if c = CHR ''e'' \<or> c = CHR ''E'' then
            (let neg = (case cs of [] \<Rightarrow> False | d # ds \<Rightarrow> d = CHR ''-'');
                 ds = (case cs of [] \<Rightarrow> []
                       | d # ds \<Rightarrow> if d = CHR ''+'' \<or> d = CHR ''-'' then ds else cs)
             in if ds \<noteq> [] \<and> list_all isDigit ds
                then Some (if neg then - int (digits_value ds) else int (digits_value ds))
                else None)
          else None)"

definition unsignedDecimal :: "string \<Rightarrow> jsnum" where
  "unsignedDecimal u =
     (if u = ''Infinity'' then Infinity False
      else
        let ip = takeWhile isDigit u;
            r1 = dropWhile isDigit u;
            fp = (case r1 of [] \<Rightarrow> []
                  | c # cs \<Rightarrow> if c = CHR ''.'' then takeWhile isDigit cs else []);
            r2 = (case r1 of [] \<Rightarrow> []
                  | c # cs \<Rightarrow> if c = CHR ''.'' then dropWhile isDigit cs else r1)
        in if ip = [] \<and> fp = [] then NaN
           else (case exponentPart r2 of
                   None \<Rightarrow> NaN
                 | Some ex \<Rightarrow> Dec (int (digits_value (ip @ fp))) (ex - int (length fp))))"

definition negate :: "jsnum \<Rightarrow> jsnum" where
  "negate v = (case v of NaN \<Rightarrow> NaN | Infinity b \<Rightarrow> Infinity (\<not> b) | Dec m e \<Rightarrow> Dec (- m) e)"

definition Number_js :: "string \<Rightarrow> jsnum" where
  "Number_js s =
     (let t = trimString s in
      case t of
        [] \<Rightarrow> Dec 0 0
      | c # cs \<Rightarrow>
          if take 2 t = ''0x'' \<or> take 2 t = ''0X'' then radixLiteral 16 (drop 2 t)
          else if take 2 t = ''0o'' \<or> take 2 t = ''0O'' then radixLiteral 8 (drop 2 t)
          else if take 2 t = ''0b'' \<or> take 2 t = ''0B'' then radixLiteral 2 (drop 2 t)
          else if c = CHR ''-'' then negate (unsignedDecimal cs)
          else if c = CHR ''+'' then unsignedDecimal cs
          else unsignedDecimal t)"

text \<open>
  \<^verbatim>\<open>v.toString(10)\<close>. For a positive value the digits \<open>s\<close> carry no trailing zero, \<open>k\<close>
  is their count and \<open>n\<close> places the decimal point, as in the definition of the language.
\<close>

definition toString_pos :: "nat \<Rightarrow> int \<Rightarrow> string" where
  "toString_pos m e =
     (let ds = show_nat m;
          z = length (takeWhile (\<lambda>c. c = CHR ''0'') (rev ds));
          s = take (length ds - z) ds;
          k = int (length s);
          n = k + (e + int z)
      in if k \<le> n \<and> n \<le> 21 then s @ replicate (nat (n - k)) CHR ''0''
         else if 0 < n \<and> n \<le> 21 then take (nat n) s @ ''.'' @ drop (nat n) s
         else if - 6 < n \<and> n \<le> 0 then ''0.'' @ replicate (nat (- n)) CHR ''0'' @ s
         else
           let ex = (if 0 \<le> n - 1 then ''+'' else ''-'') @ show_nat (nat \<bar>n - 1\<bar>)
           in if k = 1 then s @ ''e'' @ ex
              else take 1 s @ ''.'' @ drop 1 s @ ''e'' @ ex)"

definition toString10 :: "jsnum \<Rightarrow> string" where
  "toString10 v =
     (case v of
        NaN \<Rightarrow> ''NaN''
      | Infinity neg \<Rightarrow> (if neg then ''-Infinity'' else ''Infinity'')
      | Dec m e \<Rightarrow>
          if m = 0 then ''0''
          else (if m < 0 then ''-'' else []) @ toString_pos (nat \<bar>m\<bar>) e)"

text \<open>The integer a number holds, if it holds one.\<close>

definition int_of_jsnum :: "jsnum \<Rightarrow> int option" where
  "int_of_jsnum v =
     (case v of
        NaN \<Rightarrow> None
      | Infinity b \<Rightarrow> None
      | Dec m e \<Rightarrow>
          if 0 \<le> e then Some (m * 10 ^ nat e)
          else if m mod 10 ^ nat (- e) = 0 then Some (m div 10 ^ nat (- e))
          else None)"

text \<open>Truthiness of an optional string: \<^verbatim>\<open>undefined\<close> and the empty string are falsy.\<close>

definition truthy :: "string option \<Rightarrow> bool" where
  "truthy s = (case s of None \<Rightarrow> False | Some x \<Rightarrow> x \<noteq> [])"

subsection \<open>transformBlockData and getLocalTip\<close>

record IBlock =
  ib_chain :: "string option"
  ib_network :: "string option"
  ib_height :: int
  ib_hash :: string
  ib_time :: date
  ib_timeNormalized :: date
  ib_previousBlockHash :: string
  ib_nextBlockHash :: string
  ib_transactionCount :: nat
  ib_size :: int
  ib_reward :: int
  ib_processed :: bool
  ib_nonce :: string
  ib_difficulty :: int
  ib_gasUsed :: int
  ib_gasLimit :: int
  ib_baseFeePerGas :: "int option"
  ib_transactions :: "string list option"

definition transformBlockData ::
  "env \<Rightarrow> string option \<Rightarrow> string option \<Rightarrow> raw_block \<Rightarrow> bool \<Rightarrow> IBlock" where
  "transformBlockData e chain network block includeTxs =
     \<lparr>ib_chain = chain,
      ib_network = network,
      ib_height = rb_number block,
      ib_hash = rb_hash block,
      ib_time = unixToDate e (rb_timestamp block),
      ib_timeNormalized = unixToDate e (rb_timestamp block),
      ib_previousBlockHash = rb_parentHash block,
      ib_nextBlockHash = [],
      ib_transactionCount = length (rb_transactions block),
      ib_size = rb_size block,
      ib_reward = 5,
      ib_processed = True,
      ib_nonce = rb_nonce block,
      ib_difficulty = rb_difficulty block,
      ib_gasUsed = rb_gasUsed block,
      ib_gasLimit = rb_gasLimit block,
      ib_baseFeePerGas = rb_baseFeePerGas block,
      ib_transactions = (if includeTxs then Some (rb_transactions block) else None)\<rparr>"

text \<open>
  \<^verbatim>\<open>getLocalTip\<close> asks a handle of any capability for the latest block. Reading a field
  of a missing block is a \<^verbatim>\<open>TypeError\<close>.
\<close>

definition getLocalTip :: "env \<Rightarrow> string option \<Rightarrow> string option \<Rightarrow> bool \<Rightarrow> error + IBlock" where
  "getLocalTip e chain network includeTxs =
     (case getWeb3_outcome e None of
        Inl err \<Rightarrow> Inl err
      | Inr w3 \<Rightarrow>
      (case eth_getBlock w3 Latest of
        Inl err \<Rightarrow> Inl err
      | Inr None \<Rightarrow> Inl (TypeError ''Cannot read properties of null'')
      | Inr (Some block) \<Rightarrow> Inr (transformBlockData e chain network block includeTxs)))"

subsection \<open>getBlocksParams\<close>

text \<open>
  The \<^verbatim>\<open>sort\<close> argument is loosely typed: a number, or an object such as
  \<^verbatim>\<open>{ height: -1 }\<close>, which is also the default.
\<close>

datatype sort_arg = SortNumber int | SortObject "(string \<times> int) list"

record blocks_args =
  a_startDate :: "date option"
  a_endDate :: "date option"
  a_date :: "date option"
  a_since :: "string option"
  a_direction :: "int option"
  a_paging :: "string option"
  a_limit :: "int option"
  a_sort :: "sort_arg option"

record getBlocks_params =
  gb_chain :: "string option"
  gb_network :: "string option"
  gb_sinceBlock :: "string option"
  gb_blockId :: "string option"
  gb_args :: "blocks_args option"

record block_options =
  o_limit :: int
  o_sort :: sort_arg
  o_since :: "string option"
  o_direction :: "int option"
  o_paging :: "string option"

record block_query =
  startBlock :: int
  endBlock :: int
  q_block :: "string option"     \<comment> \<open>\<^verbatim>\<open>query['block']\<close>\<close>
  q_height :: "int option"       \<comment> \<open>\<^verbatim>\<open>query['height']\<close>\<close>

text \<open>\<^verbatim>\<open>args = {}\<close>, \<^verbatim>\<open>limit = 10\<close> and \<^verbatim>\<open>sort = { height: -1 }\<close>: the defaults.\<close>

definition args_of :: "getBlocks_params \<Rightarrow> blocks_args" where
  "args_of p =
     (case gb_args p of
        None \<Rightarrow> \<lparr>a_startDate = None, a_endDate = None, a_date = None, a_since = None,
                 a_direction = None, a_paging = None, a_limit = None, a_sort = None\<rparr>
      | Some a \<Rightarrow> a)"

definition limit_of :: "getBlocks_params \<Rightarrow> int" where
  "limit_of p = (case a_limit (args_of p) of None \<Rightarrow> 10 | Some l \<Rightarrow> l)"

definition sort_of :: "getBlocks_params \<Rightarrow> sort_arg" where
  "sort_of p = (case a_sort (args_of p) of None \<Rightarrow> SortObject [(''height'', - 1)] | Some x \<Rightarrow> x)"

definition options_of :: "getBlocks_params \<Rightarrow> block_options" where
  "options_of p =
     \<lparr>o_limit = limit_of p, o_sort = sort_of p, o_since = a_since (args_of p),
      o_direction = a_direction (args_of p), o_paging = a_paging (args_of p)\<rparr>"

text \<open>Sequencing of awaited steps: the first rejection ends the function.\<close>

definition andThen :: "error + 'a \<Rightarrow> ('a \<Rightarrow> error + 'b) \<Rightarrow> error + 'b" where
  "andThen r f = (case r of Inl err \<Rightarrow> Inl err | Inr x \<Rightarrow> f x)"

text \<open>
  The block identifier (source lines 410 to 420): 64 or more characters are a hash, a
  shorter identifier has to print back as itself after \<^verbatim>\<open>parseInt\<close>.
\<close>

definition parseBlockId :: "string option \<Rightarrow> error + block_query" where
  "parseBlockId blockId =
     (let query = \<lparr>startBlock = 0, endBlock = 0, q_block = None, q_height = None\<rparr> in
      case blockId of
        None \<Rightarrow> Inr query
      | Some b \<Rightarrow>
          if b = [] then Inr query
          else if length b \<ge> 64 then Inr (query\<lparr>q_block := Some b\<rparr>)
          else (case parseInt10 b of
                  None \<Rightarrow> Inl InvalidBlockId
                | Some height \<Rightarrow>
                    if toString10 (Dec height 0) \<noteq> b then Inl InvalidBlockId
                    else Inr (query\<lparr>q_height := Some height\<rparr>)))"

text \<open>
  The dates (source lines 422 to 432). A calendar date stands for the day that starts
  there; the day added by \<^verbatim>\<open>setDate\<close> is taken as 86400000 milliseconds.
  \<^verbatim>\<open>x || 0\<close> turns a missing height into 0.
\<close>

definition or0 :: "int option \<Rightarrow> int" where
  "or0 r = (case r of None \<Rightarrow> 0 | Some n \<Rightarrow> n)"

definition resolveDates :: "env \<Rightarrow> blocks_args \<Rightarrow> block_query \<Rightarrow> error + block_query" where
  "resolveDates e a query =
     (let startDate = (case a_date a of Some d \<Rightarrow> Some d | None \<Rightarrow> a_startDate a);
          endDate = (case a_date a of Some d \<Rightarrow> Some (d + 86400000) | None \<Rightarrow> a_endDate a)
      in
      andThen
        (case startDate of
           None \<Rightarrow> Inr query
         | Some sd \<Rightarrow> andThen (getBlockNumberByDate e sd)
                        (\<lambda>r. Inr (query\<lparr>startBlock := or0 r\<rparr>)))
        (\<lambda>query.
           case endDate of
             None \<Rightarrow> Inr query
           | Some ed \<Rightarrow> andThen (getBlockNumberByDate e ed)
                          (\<lambda>r. Inr (query\<lparr>endBlock := or0 r\<rparr>))))"

text \<open>
  The cursor and the hash lookup (source lines 435 to 448). A cursor that passes the
  check but holds no integer leaves the model through \<open>NonIntegerHeight\<close>.
\<close>

definition resolveSince :: "env \<Rightarrow> string option \<Rightarrow> int \<Rightarrow> block_query \<Rightarrow> error + block_query" where
  "resolveSince e sinceBlock limit query =
     (if truthy sinceBlock then
        (let s = (case sinceBlock of None \<Rightarrow> [] | Some x \<Rightarrow> x);
             height = Number_js s
         in if height = NaN \<or> toString10 height \<noteq> s then Inl InvalidBlockId
            else (case int_of_jsnum height of
                    None \<Rightarrow> Inl NonIntegerHeight
                  | Some h \<Rightarrow> Inr (query\<lparr>startBlock := h, endBlock := h + limit\<rparr>)))
      else
        (case q_block query of
           None \<Rightarrow> Inr query
         | Some b \<Rightarrow>
             andThen (getBlockNumberByBlockId e b)
               (\<lambda>blockNum.
                  if or0 blockNum = 0 then Inl (CouldNotGetBlock b)
                  else Inr (query\<lparr>q_height := blockNum\<rparr>))))"

text \<open>\<^verbatim>\<open>if (query?.height)\<close> (source lines 450 to 453): a height of 0 is falsy.\<close>

definition applyHeight :: "block_query \<Rightarrow> block_query" where
  "applyHeight query =
     (if or0 (q_height query) = 0 then query
      else query\<lparr>startBlock := or0 (q_height query), endBlock := or0 (q_height query)\<rparr>)"

text \<open>The range from the tip (source lines 455 to 461): a bound of 0 is falsy.\<close>

definition defaultRange :: "env \<Rightarrow> getBlocks_params \<Rightarrow> block_query \<Rightarrow> error + block_query" where
  "defaultRange e p query =
     (if startBlock query = 0 \<or> endBlock query = 0 then
        andThen (getLocalTip e (gb_chain p) (gb_network p) False)
          (\<lambda>tip.
             let tipHeight = ib_height tip;
                 endB = (if endBlock query = 0 then tipHeight else endBlock query);
                 startB = (if startBlock query = 0 then endB - 1 else startBlock query)
             in Inr (query\<lparr>endBlock := endB, startBlock := startB\<rparr>))
      else Inr query)"

text \<open>The limit (source lines 463 to 465).\<close>

definition clampLimit :: "int \<Rightarrow> block_query \<Rightarrow> block_query" where
  "clampLimit limit query =
     (if limit > 0 \<and> endBlock query - startBlock query > limit
      then query\<lparr>endBlock := startBlock query + limit\<rparr>
      else query)"

text \<open>
  The swap (source lines 467 to 471). \<^verbatim>\<open>sort === -1\<close> holds for the number \<open>-1\<close> only,
  never for an object.
\<close>

definition applySort :: "sort_arg \<Rightarrow> block_query \<Rightarrow> block_query" where
  "applySort srt query =
     (if srt = SortNumber (- 1)
      then query\<lparr>startBlock := endBlock query, endBlock := startBlock query\<rparr>
      else query)"

text \<open>The range as it stands before the swap.\<close>

definition resolveRange :: "env \<Rightarrow> getBlocks_params \<Rightarrow> error + block_query" where
  "resolveRange e p =
     (if \<not> truthy (gb_chain p) \<or> \<not> truthy (gb_network p) then Inl MissingChainNetwork
      else
        andThen (parseBlockId (gb_blockId p)) (\<lambda>query.
        andThen (resolveDates e (args_of p) query) (\<lambda>query.
        andThen (resolveSince e (gb_sinceBlock p) (limit_of p) query) (\<lambda>query.
        andThen (defaultRange e p (applyHeight query)) (\<lambda>query.
        Inr (clampLimit (limit_of p) query))))))"

definition getBlocksParams :: "env \<Rightarrow> getBlocks_params \<Rightarrow> error + block_query \<times> block_options" where
  "getBlocksParams e p =
     andThen (resolveRange e p) (\<lambda>query. Inr (applySort (sort_of p) query, options_of p))"

subsection \<open>getBlocks\<close>

text \<open>\<^verbatim>\<open>{ ...converted, confirmations }\<close>: the converted record with one more field.\<close>

record 'a with_confirmations =
  spread :: 'a
  confirmations :: int

text \<open>
  \<^verbatim>\<open>blockTransform\<close>, the closure of \<^verbatim>\<open>getBlocks\<close> (source lines 206 to 215), with the
  tip height it captures as an argument. \<^verbatim>\<open>block.height || block.number || 0\<close> skips
  a missing or zero height.
\<close>

definition blockTransform ::
  "env \<Rightarrow> int \<Rightarrow> string option \<Rightarrow> string option \<Rightarrow> raw_block option
     \<Rightarrow> error + IBlock with_confirmations" where
  "blockTransform e tipHeight chain network block =
     (case block of
        None \<Rightarrow> Inl (TypeError ''Cannot read properties of null'')
      | Some b \<Rightarrow>
          let blockHeight =
                (if or0 (rb_height b) \<noteq> 0 then or0 (rb_height b)
                 else if rb_number b \<noteq> 0 then rb_number b
                 else 0);
              conf = (if blockHeight \<ge> 0 then tipHeight - blockHeight + 1 else 0)
          in Inr \<lparr>spread = transformBlockData e chain network b False,
                  confirmations = conf\<rparr>)"

text \<open>
  \<^verbatim>\<open>_.range(start, stop)\<close> of the utility library: it counts up to \<open>stop\<close> exclusive, and
  counts down when \<open>start\<close> is not below \<open>stop\<close>.
\<close>

definition lodash_range :: "int \<Rightarrow> int \<Rightarrow> int list" where
  "lodash_range start stop =
     (if start < stop then [start..stop - 1]
      else map (\<lambda>i. start - int i) [0..<nat (start - stop)])"

text \<open>
  \<^verbatim>\<open>Promise.all\<close>: the values in order, or a rejection. Which rejection wins is a matter
  of timing; the model takes the first in the order of the array.
\<close>

fun promise_all :: "(error + 'a) list \<Rightarrow> error + 'a list" where
  "promise_all [] = Inr []"
| "promise_all (Inl err # ps) = Inl err"
| "promise_all (Inr x # ps) = (case promise_all ps of Inl err \<Rightarrow> Inl err | Inr xs \<Rightarrow> Inr (x # xs))"

text \<open>
  What \<^verbatim>\<open>getBlocks\<close> resolves to. It never rejects: the \<^verbatim>\<open>catch\<close> block logs and falls
  through to \<^verbatim>\<open>return undefined\<close>, and \<^verbatim>\<open>.catch(error => error)\<close> turns a rejected batch
  into the error object as a value.
\<close>

datatype getBlocks_result =
    ResolvedUndefined
  | ResolvedError error
  | ResolvedBlocks "raw_block option list"

text \<open>
  The array \<^verbatim>\<open>blockPromises.map(blockTransform)\<close> is built and handed to \<^verbatim>\<open>then\<close>, which
  takes a function: an argument that is not callable is ignored, so the promise returned
  by \<^verbatim>\<open>Promise.all\<close> passes through with the blocks as the peer sent them.
\<close>

definition discardedTransforms ::
  "env \<Rightarrow> int \<Rightarrow> getBlocks_params \<Rightarrow> (error + raw_block option) list
     \<Rightarrow> (error + IBlock with_confirmations) list" where
  "discardedTransforms e tipHeight p blockPromises =
     map (\<lambda>bp. andThen bp (blockTransform e tipHeight (gb_chain p) (gb_network p))) blockPromises"

definition getBlocks :: "env \<Rightarrow> getBlocks_params \<Rightarrow> getBlocks_result" where
  "getBlocks e p =
     (case getBlocksParams e p of
        Inl err \<Rightarrow> ResolvedUndefined
      | Inr (query, opts) \<Rightarrow>
      (case getWeb3_outcome e (Some Historical) of
        Inl err \<Rightarrow> ResolvedUndefined
      | Inr w3 \<Rightarrow>
      (case getLocalTip e (gb_chain p) (gb_network p) False of
        Inl err \<Rightarrow> ResolvedUndefined
      | Inr tip \<Rightarrow>
          let tipHeight = ib_height tip;
              blockNumbers = lodash_range (startBlock query) (endBlock query + 1);
              blockPromises = map (\<lambda>n. eth_getBlock w3 (ByNumber n)) blockNumbers;
              ignored = discardedTransforms e tipHeight p blockPromises
          in (case promise_all blockPromises of
                Inl err \<Rightarrow> ResolvedError err
              | Inr fetched \<Rightarrow> ResolvedBlocks fetched))))"

subsection \<open>getTransaction\<close>

text \<open>\<^verbatim>\<open>a || b\<close> on optional numbers, strings and objects.\<close>

definition or_num :: "int option \<Rightarrow> int option \<Rightarrow> int option" where
  "or_num a b = (if or0 a = 0 then b else a)"

definition or_str :: "string option \<Rightarrow> string option \<Rightarrow> string option" where
  "or_str a b = (if truthy a then a else b)"

definition or_obj :: "'a option \<Rightarrow> 'a option \<Rightarrow> 'a option" where
  "or_obj a b = (case a of None \<Rightarrow> b | Some x \<Rightarrow> Some x)"

text \<open>
  \<^verbatim>\<open>parseInt(s)\<close> with no radix: as \<open>parseInt10\<close>, except that a prefix \<^verbatim>\<open>0x\<close> selects
  base 16.
\<close>

definition parseInt_js :: "string \<Rightarrow> int option" where
  "parseInt_js s =
     (let t = dropWhile isStrWhiteSpace s;
          neg = (case t of [] \<Rightarrow> False | c # cs \<Rightarrow> c = CHR ''-'');
          u = (case t of [] \<Rightarrow> [] | c # cs \<Rightarrow> if c = CHR ''+'' \<or> c = CHR ''-'' then cs else t);
          hex = (take 2 u = ''0x'' \<or> take 2 u = ''0X'');
          z = (if hex then takeWhile (\<lambda>c. radixVal c < 16) (drop 2 u) else takeWhile isDigit u);
          v = (if hex then foldl (\<lambda>a c. 16 * a + radixVal c) 0 z else digits_value z)
      in if z = [] then None else Some (if neg then - int v else int v))"

record transformed_tx =
  tt_txid :: string
  tt_chain :: "string option"
  tt_network :: "string option"
  tt_blockHeight :: "int option"
  tt_blockHash :: "string option"
  tt_blockTime :: "date option"
  tt_blockTimeNormalized :: "date option"
  tt_fee :: "int option option"
  tt_value :: int
  tt_gasLimit :: "int option"
  tt_gasPrice :: "string option"
  tt_nonce :: int
  tt_to :: "string option"
  tt_from :: "string option"
  tt_data :: "string option"
  tt_effects :: "string option"

definition transformTransactionData ::
  "string option \<Rightarrow> string option \<Rightarrow> raw_tx \<Rightarrow> transformed_tx" where
  "transformTransactionData chain network tx =
     \<lparr>tt_txid = tx_hash tx,
      tt_chain = chain,
      tt_network = network,
      tt_blockHeight = or_num (tx_blockNumber tx) (tx_block_number tx),
      tt_blockHash = or_str (tx_blockHash tx) (tx_block_hash tx),
      tt_blockTime = or_obj (tx_blockTime tx) (tx_block_timestamp tx),
      tt_blockTimeNormalized = tx_blockTimeNormalized tx,
      tt_fee = tx_fee tx,
      tt_value = tx_value tx,
      tt_gasLimit = or_num (tx_gasLimit tx) (tx_gas tx),
      tt_gasPrice = or_str (tx_gasPrice tx) (tx_gas_price tx),
      tt_nonce = tx_nonce tx,
      tt_to = or_str (tx_to tx) (tx_to_address tx),
      tt_from = or_str (tx_from tx) (tx_from_address tx),
      tt_data = tx_data tx,
      tt_effects = tx_effects tx\<rparr>"

text \<open>The calls a request makes, in order, and what it writes to the log.\<close>

datatype call =
    Call_getWeb3
  | Call_getLocalTip
  | Call_getTransaction string
  | Call_getBlockTimestamp
  | Call_getTransactionReceipt string
  | Log_error error

definition getBlockTimestamp :: "env \<Rightarrow> block_ref \<Rightarrow> error + date" where
  "getBlockTimestamp e blockNumber =
     (case getWeb3_outcome e None of
        Inl err \<Rightarrow> Inl err
      | Inr w3 \<Rightarrow>
      (case eth_getBlock w3 blockNumber of
        Inl err \<Rightarrow> Inl err
      | Inr None \<Rightarrow> Inl (TypeError ''Cannot read properties of null'')
      | Inr (Some block) \<Rightarrow> Inr (unixToDate e (rb_timestamp block))))"

text \<open>
  \<^verbatim>\<open>_getTransaction\<close> (source lines 260 to 279). \<^verbatim>\<open>_apiTransform\<close> of the transaction
  storage is not part of the sources at hand and is the argument \<open>apiTransform\<close>.
  \<^verbatim>\<open>tx.blockNumber && tx.blockNumber >= 0\<close> is false for a missing block number and
  for block 0.
\<close>

definition underscore_getTransaction ::
  "env \<Rightarrow> (transformed_tx \<Rightarrow> 'j) \<Rightarrow> string option \<Rightarrow> string option \<Rightarrow> string \<Rightarrow> int \<Rightarrow> web3
     \<Rightarrow> (error + 'j with_confirmations option) \<times> call list" where
  "underscore_getTransaction e apiTransform chain network txId tipHeight w3 =
     (case eth_getTransaction w3 txId of
        Inl err \<Rightarrow> (Inl err, [Call_getTransaction txId])
      | Inr None \<Rightarrow> (Inr None, [Call_getTransaction txId])
      | Inr (Some tx) \<Rightarrow>
          let conf =
                (if or0 (tx_blockNumber tx) \<noteq> 0 \<and> or0 (tx_blockNumber tx) \<ge> 0
                 then tipHeight - or0 (tx_blockNumber tx) + 1 else 0)
          in
          (case getBlockTimestamp e
                  (case tx_blockHash tx of None \<Rightarrow> NullRef | Some h \<Rightarrow> ByHash h) of
             Inl err \<Rightarrow> (Inl err, [Call_getTransaction txId, Call_getBlockTimestamp])
           | Inr blockTime \<Rightarrow>
           (case eth_getTransactionReceipt w3 txId of
              Inl err \<Rightarrow>
                (Inl err, [Call_getTransaction txId, Call_getBlockTimestamp,
                           Call_getTransactionReceipt txId])
            | Inr rcpt \<Rightarrow>
                let tx1 = tx\<lparr>tx_blockTime := Some blockTime\<rparr>;
                    tx2 = (case rcpt of
                             None \<Rightarrow> tx1
                           | Some r \<Rightarrow>
                               tx1\<lparr>tx_receipt := Some r,
                                   tx_fee := Some (map_option (\<lambda>g. rc_gasUsed r * g)
                                     (case tx_gasPrice tx of
                                        None \<Rightarrow> None
                                      | Some g \<Rightarrow> parseInt_js g))\<rparr>);
                    convertedTx = apiTransform (transformTransactionData chain network tx2)
                in (Inr (Some \<lparr>spread = convertedTx, confirmations = conf\<rparr>),
                    [Call_getTransaction txId, Call_getBlockTimestamp,
                     Call_getTransactionReceipt txId]))))"

record getTransaction_params =
  gt_chain :: "string option"
  gt_network :: "string option"
  gt_txId :: "string option"     \<comment> \<open>\<open>None\<close>: a value that is not a string\<close>

text \<open>The body of the \<^verbatim>\<open>try\<close> block of \<^verbatim>\<open>getTransaction\<close>.\<close>

definition getTransaction_try ::
  "env \<Rightarrow> (transformed_tx \<Rightarrow> 'j) \<Rightarrow> getTransaction_params
     \<Rightarrow> (error + 'j with_confirmations option) \<times> call list" where
  "getTransaction_try e apiTransform p =
     (case gt_txId p of
        None \<Rightarrow> (Inl MissingRequiredParam, [])
      | Some txId \<Rightarrow>
          if \<not> truthy (gt_chain p) \<or> \<not> truthy (gt_network p)
          then (Inl MissingRequiredParam, [])
          else
            (case getWeb3_outcome e (Some Historical) of
               Inl err \<Rightarrow> (Inl err, [Call_getWeb3])
             | Inr w3 \<Rightarrow>
             (case getLocalTip e (gt_chain p) (gt_network p) False of
                Inl err \<Rightarrow> (Inl err, [Call_getWeb3, Call_getLocalTip])
              | Inr tip \<Rightarrow>
                  let tipHeight = ib_height tip;
                      r = underscore_getTransaction e apiTransform (gt_chain p) (gt_network p)
                            txId tipHeight w3
                  in (fst r, [Call_getWeb3, Call_getLocalTip] @ snd r))))"

text \<open>
  \<^verbatim>\<open>getTransaction\<close>: whatever the body throws is caught and logged, and the function
  goes on to \<^verbatim>\<open>return undefined\<close>.
\<close>

definition getTransaction ::
  "env \<Rightarrow> (transformed_tx \<Rightarrow> 'j) \<Rightarrow> getTransaction_params
     \<Rightarrow> (error + 'j with_confirmations option) \<times> call list" where
  "getTransaction e apiTransform p =
     (case getTransaction_try e apiTransform p of
        (Inl err, calls) \<Rightarrow> (Inr None, calls @ [Log_error err])
      | (Inr r, calls) \<Rightarrow> (Inr r, calls))"

subsection \<open>getWeb3: the pool of connections\<close>

text \<open>
  A handle of the pool with what the acquisition observes of it: how the liveness probe
  \<^verbatim>\<open>getBlockNumber\<close> ends, whether the provider can disconnect, and whether it reports
  \<^verbatim>\<open>connected\<close> after \<^verbatim>\<open>disconnect\<close> and \<^verbatim>\<open>connect\<close>. \<open>rid\<close> is the identity of the object,
  which \<^verbatim>\<open>indexOf\<close> compares.
\<close>

datatype probe = Responds nat | Rejects | Hangs

record rpc =
  rid :: nat
  rpc_dataType :: dataType
  rpc_probe :: probe
  rpc_hasDisconnect :: bool
  rpc_connected :: bool

record provider_config =
  pc_dataType :: "dataType option"

text \<open>
  \<^verbatim>\<open>isValidProviderType\<close>, \<^verbatim>\<open>getProvider\<close> and the \<^verbatim>\<open>CryptoRpc\<close> constructor are not part of
  the sources at hand; they are parameters.
\<close>

record pool_env =
  isValidProviderType :: "dataType option \<Rightarrow> dataType \<Rightarrow> bool"
  getProvider :: "dataType option \<Rightarrow> error + provider_config"
  CryptoRpc_get :: "provider_config \<Rightarrow> rpc"

text \<open>
  The race of the probe against \<^verbatim>\<open>setTimeout(reject, 5000)\<close>: the probe wins when it
  answers before 5000 milliseconds have passed.
\<close>

definition probe_wins :: "probe \<Rightarrow> bool" where
  "probe_wins pr = (case pr of Responds t \<Rightarrow> t < 5000 | Rejects \<Rightarrow> False | Hangs \<Rightarrow> False)"

text \<open>\<^verbatim>\<open>indexOf\<close> gives \<open>-1\<close> for an absent element; \<^verbatim>\<open>splice(idx, 1)\<close> counts a negative
  index from the end.\<close>

fun indexOf :: "'a list \<Rightarrow> 'a \<Rightarrow> int" where
  "indexOf [] x = - 1"
| "indexOf (y # ys) x = (if y = x then 0 else (let i = indexOf ys x in if i < 0 then - 1 else i + 1))"

definition splice1 :: "'a list \<Rightarrow> int \<Rightarrow> 'a list" where
  "splice1 xs idx =
     (let i = (if idx < 0 then max 0 (int (length xs) + idx) else idx)
      in take (nat i) xs @ drop (nat i + 1) xs)"

text \<open>
  The \<^verbatim>\<open>for ... of\<close> loop over the pool (source lines 124 to 147). The iterator of an
  array keeps an index and reads the array afresh at every step; \<open>i\<close> is that index.
\<close>

function getWeb3_loop ::
  "pool_env \<Rightarrow> dataType option \<Rightarrow> rpc list \<Rightarrow> nat \<Rightarrow> rpc option \<times> rpc list" where
  "getWeb3_loop pe ty pool i =
     (if i < length pool then
        (if \<not> isValidProviderType pe ty (rpc_dataType (pool ! i))
         then getWeb3_loop pe ty pool (i + 1)
         else if probe_wins (rpc_probe (pool ! i)) then (Some (pool ! i), pool)
         else if rpc_hasDisconnect (pool ! i) \<and> rpc_connected (pool ! i)
         then (Some (pool ! i), pool)
         else getWeb3_loop pe ty (splice1 pool (indexOf pool (pool ! i))) (i + 1))
      else (None, pool))"
  by pat_completeness auto
termination
proof (relation "measure (\<lambda>(pe, ty, pool, i). length pool - i)")
  show "wf (measure (\<lambda>(pe, ty, pool, i). length pool - i))"
    by simp
next
  fix pe :: pool_env and ty :: "dataType option" and pool :: "rpc list" and i :: nat
  assume "i < length pool"
  then show "((pe, ty, pool, i + 1), pe, ty, pool, i) \<in> measure (\<lambda>(pe, ty, pool, i). length pool - i)"
    by simp
next
  fix pe :: pool_env and ty :: "dataType option" and pool :: "rpc list" and i :: nat
  assume "i < length pool"
  moreover have "length (splice1 pool (indexOf pool (pool ! i))) \<le> length pool"
    by (simp add: splice1_def Let_def)
  ultimately show "((pe, ty, splice1 pool (indexOf pool (pool ! i)), i + 1), pe, ty, pool, i)
      \<in> measure (\<lambda>(pe, ty, pool, i). length pool - i)"
    by simp
qed

declare getWeb3_loop.simps [simp del]

text \<open>
  \<^verbatim>\<open>getWeb3\<close> for one chain and network; a pool that does not exist yet is the empty
  list. The result is the handle (or the error of \<^verbatim>\<open>getProvider\<close>) and the pool as the
  call leaves it.
\<close>

definition getWeb3 :: "pool_env \<Rightarrow> dataType option \<Rightarrow> rpc list \<Rightarrow> (error + rpc) \<times> rpc list" where
  "getWeb3 pe ty pool =
     (case getWeb3_loop pe ty pool 0 of
        (Some r, pool') \<Rightarrow> (Inr r, pool')
      | (None, pool') \<Rightarrow>
          (case getProvider pe ty of
             Inl err \<Rightarrow> (Inl err, pool')
           | Inr rpcConfig \<Rightarrow>
               let rpcObj = (CryptoRpc_get pe rpcConfig)
                      \<lparr>rpc_dataType := (case pc_dataType rpcConfig of
                                           None \<Rightarrow> Combined | Some d \<Rightarrow> d)\<rparr>
               in (Inr rpcObj, pool' @ [rpcObj])))"

subsection \<open>A sample environment\<close>

text \<open>
  A peer whose tip is block 110, used to run the definitions on concrete inputs.
\<close>

definition sample_block :: "int \<Rightarrow> raw_block" where
  "sample_block n =
     \<lparr>rb_height = None, rb_number = n, rb_hash = ''0xb10c'', rb_timestamp = 1700000000 + n,
      rb_parentHash = ''0x9a7e'', rb_transactions = [], rb_size = 540, rb_nonce = ''0x0'',
      rb_difficulty = 0, rb_gasUsed = 21000, rb_gasLimit = 30000000,
      rb_baseFeePerGas = Some 7\<rparr>"

definition sample_tx :: "int option \<Rightarrow> raw_tx" where
  "sample_tx h =
     \<lparr>tx_hash = ''0xabc'', tx_blockNumber = h, tx_block_number = None,
      tx_blockHash = Some ''0xb10c'', tx_block_hash = None, tx_blockTime = None,
      tx_block_timestamp = None, tx_blockTimeNormalized = None, tx_fee = None,
      tx_value = 5, tx_gasLimit = None, tx_gas = Some 21000, tx_gasPrice = Some ''30'',
      tx_gas_price = None, tx_nonce = 1, tx_to = Some ''0x02'', tx_to_address = None,
      tx_from = Some ''0x01'', tx_from_address = None, tx_data = None, tx_effects = None,
      tx_receipt = None\<rparr>"

definition sample_web3 :: web3 where
  "sample_web3 =
     \<lparr>eth_getBlockNumber = Inr 110,
      eth_getChainId = Inr 1,
      eth_getBlock = (\<lambda>r. case r of
          Latest \<Rightarrow> Inr (Some (sample_block 110))
        | ByNumber n \<Rightarrow> Inr (if 0 \<le> n \<and> n \<le> 110 then Some (sample_block n) else None)
        | ByHash h \<Rightarrow> Inr (Some (sample_block 100))
        | NullRef \<Rightarrow> Inr None),
      eth_getFeeHistory = (\<lambda>n l ps.
          Inr \<lparr>baseFeePerGas = [10, 40, 20, 30], reward = [[1], [4], [2], [3]]\<rparr>),
      eth_getTransaction = (\<lambda>i.
          Inr (if i = ''0xabc'' then Some (sample_tx (Some 100))
               else if i = ''0xgen'' then Some (sample_tx (Some 0))
               else None)),
      eth_getTransactionReceipt = (\<lambda>i. Inr (Some \<lparr>rc_gasUsed = 21000\<rparr>))\<rparr>"

definition sample_env :: env where
  "sample_env =
     \<lparr>getWeb3_outcome = (\<lambda>t. Inr sample_web3),
      unixToDate = (\<lambda>t. t * 1000),
      getNthQuartileMedian = (\<lambda>xs q. Inr q),
      getWalletAddresses = (\<lambda>w. Inr [\<lparr>address = ''0x01''\<rparr>, \<lparr>address = ''0x02''\<rparr>]),
      getBlockNumberByDate = (\<lambda>d. Inr (if 0 < d then Some (d div 1000) else None)),
      getBlockNumberByBlockId = (\<lambda>b. Inr (Some 100)),
      getNativeBalanceByBlock = (\<lambda>b as. Inr (JObj [(''total_balance'', JStr ''42'')]))\<rparr>"

text \<open>The same peer, except that fetching block 101 fails.\<close>

definition failing_env :: env where
  "failing_env =
     sample_env\<lparr>getWeb3_outcome := (\<lambda>t.
        Inr (sample_web3\<lparr>eth_getBlock := (\<lambda>r.
               if r = ByNumber 101 then Inl (Upstream ''timeout'')
               else eth_getBlock sample_web3 r)\<rparr>))\<rparr>"

definition sample_request ::
  "string option \<Rightarrow> string option \<Rightarrow> int option \<Rightarrow> sort_arg option \<Rightarrow> getBlocks_params" where
  "sample_request since bid lim srt =
     \<lparr>gb_chain = Some ''ETH'', gb_network = Some ''mainnet'', gb_sinceBlock = since,
      gb_blockId = bid,
      gb_args = Some \<lparr>a_startDate = None, a_endDate = None, a_date = None, a_since = None,
                       a_direction = None, a_paging = None, a_limit = lim, a_sort = srt\<rparr>\<rparr>"

text \<open>
  A pool with a handle that no longer answers and cannot reconnect, a healthy handle,
  and the handle a new connection would give.

  Modelled from the spec: \<^verbatim>\<open>isValidProviderType\<close> is missing from the sources; in the
  sample a handle tagged \<^verbatim>\<open>combined\<close> satisfies every request and a handle tagged for
  one capability satisfies a request for that capability only.
\<close>

definition dead_rpc :: rpc where
  "dead_rpc = \<lparr>rid = 1, rpc_dataType = Historical, rpc_probe = Hangs,
                rpc_hasDisconnect = True, rpc_connected = False\<rparr>"

definition live_rpc :: rpc where
  "live_rpc = \<lparr>rid = 2, rpc_dataType = Historical, rpc_probe = Responds 20,
                rpc_hasDisconnect = True, rpc_connected = True\<rparr>"

definition fresh_rpc :: rpc where
  "fresh_rpc = \<lparr>rid = 3, rpc_dataType = Combined, rpc_probe = Responds 20,
                 rpc_hasDisconnect = True, rpc_connected = True\<rparr>"

definition sample_pool_env :: pool_env where
  "sample_pool_env =
     \<lparr>isValidProviderType = (\<lambda>t d. case t of None \<Rightarrow> True | Some x \<Rightarrow> d = x \<or> d = Combined),
      getProvider = (\<lambda>t. Inr \<lparr>pc_dataType = t\<rparr>),
      CryptoRpc_get = (\<lambda>c. fresh_rpc)\<rparr>"

subsection \<open>Notions of the specification\<close>



text \<open>The same request with the sort argument set.\<close>

definition with_sort :: "sort_arg \<Rightarrow> getBlocks_params \<Rightarrow> getBlocks_params" where
  "with_sort x p = p\<lparr>gb_args := Some ((args_of p)\<lparr>a_sort := Some x\<rparr>)\<rparr>"

section \<open>Properties\<close>

subsection \<open>Fee estimation\<close>

lemma whichQuartile_cases:
  "whichQuartile t = (if t < 0 then t else max 1 (min 4 t))"
  by (auto simp: whichQuartile_def Let_def min_def max_def)

text \<open>
  C3, as the code has it. The quartile position handed to \<open>getNthQuartileMedian\<close> is
  \<^verbatim>\<open>Math.min(target, 4) || 1\<close>, where a missing \<open>target\<close> has already been replaced by
  \<open>4\<close>. So a missing target selects quartile 4, and a target that is zero or positive
  selects the target clamped to the range from 1 to 4 (0 becomes 1). The estimate
  reports the target as \<open>blocks\<close>.
\<close>

theorem getFee_quartile_position:
  assumes "getFee e p = Inr r"
      and "gf_target p = None \<or> (\<exists>t. gf_target p = Some t \<and> 0 \<le> t)"
  shows "\<exists>w3 latestBlock fh gasPrices.
           getWeb3_outcome e (Some Historical) = Inr w3 \<and>
           eth_getBlockNumber w3 = Inr latestBlock \<and>
           eth_getFeeHistory w3 4000 latestBlock [25] = Inr fh \<and>
           gasPrices_loop (baseFeePerGas fh) (reward fh) = Inr gasPrices \<and>
           getNthQuartileMedian e (rev (sort gasPrices))
             (case gf_target p of None \<Rightarrow> 4 | Some t \<Rightarrow> max 1 (min 4 t)) = Inr (feerate r) \<and>
           blocks r = (case gf_target p of None \<Rightarrow> 4 | Some t \<Rightarrow> t)"
  using assms
  by (auto simp: getFee_def Let_def getFee_target_def whichQuartile_cases
           split: sum.splits option.splits)

theorem getFee_quartile_position_witness:
  "getFee sample_env \<lparr>gf_network = Some ''mainnet'', gf_target = Some 9\<rparr>
     = Inr \<lparr>feerate = 4, blocks = 9\<rparr> \<and>
   (\<exists>w3 latestBlock fh gasPrices.
           getWeb3_outcome sample_env (Some Historical) = Inr w3 \<and>
           eth_getBlockNumber w3 = Inr latestBlock \<and>
           eth_getFeeHistory w3 4000 latestBlock [25] = Inr fh \<and>
           gasPrices_loop (baseFeePerGas fh) (reward fh) = Inr gasPrices \<and>
           getNthQuartileMedian sample_env (rev (sort gasPrices)) 4 = Inr 4)"
proof -
  let ?p = "\<lparr>gf_network = Some ''mainnet'', gf_target = Some 9\<rparr>"
  have h: "getFee sample_env ?p = Inr \<lparr>feerate = 4, blocks = 9\<rparr>"
    by (simp add: getFee_def getFee_target_def whichQuartile_def sample_env_def sample_web3_def)
  have t: "gf_target ?p = None \<or> (\<exists>t. gf_target ?p = Some t \<and> 0 \<le> t)"
    by simp
  from getFee_quartile_position [OF h t] show ?thesis
    using h by simp
qed

text \<open>
  C3 as the specification words it fails: with no target at all the fourth quartile is
  used, not the first, and a negative target leaves the range from 1 to 4.
\<close>

theorem getFee_missing_target_counterexample:
  "getFee sample_env \<lparr>gf_network = Some ''mainnet'', gf_target = None\<rparr>
     = Inr \<lparr>feerate = 4, blocks = 4\<rparr> \<and>
   getFee sample_env \<lparr>gf_network = Some ''mainnet'', gf_target = Some (- 3)\<rparr>
     = Inr \<lparr>feerate = - 3, blocks = - 3\<rparr>"
  by (simp add: getFee_def getFee_target_def whichQuartile_def sample_env_def sample_web3_def)

subsection \<open>Wallet balance at a time\<close>

text \<open>
  C10. Whenever \<open>getWalletBalanceAtTime\<close> resolves, the record it resolves to has
  \<open>unconfirmed\<close> equal to 0 and \<open>confirmed\<close> equal to \<open>balance\<close>; both are the
  \<^verbatim>\<open>total_balance\<close> that the provider reports for the wallet's addresses at the block
  resolved from the given time.
\<close>

theorem getWalletBalanceAtTime_result:
  assumes "getWalletBalanceAtTime e p = Inr r"
  shows "unconfirmed r = 0 \<and> confirmed r = balance r \<and>
         (\<exists>w wid addys block result.
            gwb_wallet p = Some w \<and> wallet_id w = Some wid \<and>
            getWalletAddresses e wid = Inr addys \<and>
            getBlockNumberByDate e (gwb_time p) = Inr block \<and>
            getNativeBalanceByBlock e block (map address addys) = Inr result \<and>
            balance r = opt_prop result ''total_balance'')"
  using assms unfolding getWalletBalanceAtTime_def Let_def
  by (auto split: option.splits sum.splits)

theorem getWalletBalanceAtTime_result_witness:
  "getWalletBalanceAtTime sample_env
      \<lparr>gwb_network = Some ''mainnet'', gwb_time = 100000,
       gwb_wallet = Some \<lparr>wallet_id = Some ''w1''\<rparr>\<rparr>
     = Inr \<lparr>unconfirmed = 0, confirmed = JStr ''42'', balance = JStr ''42''\<rparr> \<and>
   unconfirmed \<lparr>unconfirmed = 0, confirmed = JStr ''42'', balance = JStr ''42''\<rparr> = 0 \<and>
   confirmed \<lparr>unconfirmed = 0, confirmed = JStr ''42'', balance = JStr ''42''\<rparr>
     = balance \<lparr>unconfirmed = 0, confirmed = JStr ''42'', balance = JStr ''42''\<rparr>"
proof -
  have h: "getWalletBalanceAtTime sample_env
      \<lparr>gwb_network = Some ''mainnet'', gwb_time = 100000,
       gwb_wallet = Some \<lparr>wallet_id = Some ''w1''\<rparr>\<rparr>
     = Inr \<lparr>unconfirmed = 0, confirmed = JStr ''42'', balance = JStr ''42''\<rparr>"
    by (simp add: getWalletBalanceAtTime_def sample_env_def)
  from getWalletBalanceAtTime_result [OF h] show ?thesis
    using h by simp
qed

subsection \<open>Rules for running the definitions\<close>

lemma show_nat_lt10: "n < 10 \<Longrightarrow> show_nat n = [digit_char n]"
  by (simp add: show_nat.simps)

lemma show_nat_ge10:
  "\<not> n < 10 \<Longrightarrow> show_nat n = show_nat (n div 10) @ [digit_char (n mod 10)]"
  by (subst show_nat.simps) simp

lemma replicate_numeral: "replicate (numeral k) x = x # replicate (pred_numeral k) x"
  by (simp add: numeral_eq_Suc)

lemmas js_eval =
  show_nat_lt10 show_nat_ge10 replicate_numeral digit_char_def isDigit_def digitVal_def
  digits_value_def isStrWhiteSpace_def parseInt10_def trimString_def radixVal_def
  radixLiteral_def exponentPart_def unsignedDecimal_def negate_def Number_js_def
  toString_pos_def toString10_def int_of_jsnum_def truthy_def Let_def

lemmas params_eval =
  getBlocksParams_def resolveRange_def andThen_def parseBlockId_def resolveDates_def
  resolveSince_def applyHeight_def defaultRange_def clampLimit_def applySort_def args_of_def
  limit_of_def sort_of_def options_of_def or0_def getLocalTip_def transformBlockData_def

lemmas sample_eval =
  sample_env_def sample_web3_def sample_block_def sample_tx_def sample_request_def

subsection \<open>The block range resolver\<close>

text \<open>The scenario of the specification: a cursor of 100 with a limit of 5.\<close>

lemma since_100_limit_5:
  "map_sum id fst (getBlocksParams sample_env (sample_request (Some ''100'') None (Some 5) None))
     = Inr \<lparr>startBlock = 100, endBlock = 105, q_block = None, q_height = None\<rparr>"
  by (simp add: params_eval js_eval sample_eval)

text \<open>The cursor \<^verbatim>\<open>"007"\<close> is rejected like the block identifier \<^verbatim>\<open>"007"\<close>.\<close>

lemma since_007_rejected:
  "getBlocksParams sample_env (sample_request (Some ''007'') None None None) = Inl InvalidBlockId"
  by (simp add: params_eval js_eval sample_eval)

text \<open>
  A cursor that is accepted and holds a height \<open>S\<close> gives the range from \<open>S\<close> to
  \<open>S + limit\<close> before the swap, as long as neither bound is 0 and no decimal block
  identifier other than 0 came with the request.
\<close>

lemma since_cursor_range:
  assumes "truthy (gb_chain p)" "truthy (gb_network p)"
      and "gb_sinceBlock p = Some s" "s \<noteq> []"
      and "Number_js s \<noteq> NaN" "toString10 (Number_js s) = s"
      and "int_of_jsnum (Number_js s) = Some S"
      and "parseBlockId (gb_blockId p) = Inr q0" "or0 (q_height q0) = 0"
      and "resolveDates e (args_of p) q0 = Inr q1"
      and "S \<noteq> 0" "S + limit_of p \<noteq> 0"
  shows "\<exists>q. resolveRange e p = Inr q \<and> startBlock q = S \<and> endBlock q = S + limit_of p"
proof -
  have h: "q_height q1 = q_height q0"
    using assms(10)
    by (auto simp: resolveDates_def andThen_def Let_def split: option.splits sum.splits)
  show ?thesis
    using assms h
    by (auto simp: resolveRange_def andThen_def resolveSince_def truthy_def Let_def
        applyHeight_def defaultRange_def clampLimit_def)
qed

text \<open>
  C6. A range resolved from the cursor \<open>S\<close> with limit \<open>L\<close> should start at \<open>S\<close> and
  end at \<open>S + L\<close>. The code sets these bounds and then takes a bound of 0 for a bound
  that was never set: with the cursor \<^verbatim>\<open>"0"\<close>, a limit of 10 and the tip at 110 the
  range comes out as 9 to 10, not 0 to 10.
\<close>

theorem since_cursor_zero_range:
  "getBlocksParams sample_env (sample_request (Some ''0'') None (Some 10) None)
     = Inr (\<lparr>startBlock = 9, endBlock = 10, q_block = None, q_height = None\<rparr>,
            \<lparr>o_limit = 10, o_sort = SortObject [(''height'', - 1)], o_since = None,
             o_direction = None, o_paging = None\<rparr>)"
  by (simp add: params_eval js_eval sample_eval)






lemma args_of_with_sort: "args_of (with_sort x p) = (args_of p)\<lparr>a_sort := Some x\<rparr>"
  by (simp add: with_sort_def args_of_def)

lemma limit_of_with_sort: "limit_of (with_sort x p) = limit_of p"
  by (simp add: limit_of_def args_of_with_sort)

lemma sort_of_with_sort: "sort_of (with_sort x p) = x"
  by (simp add: sort_of_def args_of_with_sort)

lemma resolveDates_sort: "resolveDates e (a\<lparr>a_sort := x\<rparr>) q = resolveDates e a q"
  by (simp add: resolveDates_def split: option.splits)

lemma defaultRange_with_sort: "defaultRange e (with_sort x p) q = defaultRange e p q"
  by (simp add: defaultRange_def with_sort_def)

text \<open>The range before the swap does not depend on the sort argument.\<close>

lemma resolveRange_with_sort: "resolveRange e (with_sort x p) = resolveRange e p"
proof -
  have "gb_chain (with_sort x p) = gb_chain p" "gb_network (with_sort x p) = gb_network p"
       "gb_blockId (with_sort x p) = gb_blockId p"
       "gb_sinceBlock (with_sort x p) = gb_sinceBlock p"
    by (simp_all add: with_sort_def)
  then show ?thesis
    by (simp add: resolveRange_def args_of_with_sort limit_of_with_sort resolveDates_sort
        defaultRange_with_sort)
qed

text \<open>
  C2, as the code has it. When the sort argument is the number \<open>-1\<close>, the resolved pair
  is the pair of the same request under any other sort argument with its two bounds
  exchanged. So \<open>startBlock\<close> is above \<open>endBlock\<close> exactly when the range of the other
  request has \<open>startBlock\<close> below \<open>endBlock\<close>; a range of one block stays as it is.
\<close>

theorem descending_sort_swaps:
  assumes "x \<noteq> SortNumber (- 1)"
      and "getBlocksParams e (with_sort x p) = Inr (q, opts)"
  shows "\<exists>q' opts'. getBlocksParams e (with_sort (SortNumber (- 1)) p) = Inr (q', opts') \<and>
           startBlock q' = endBlock q \<and> endBlock q' = startBlock q \<and>
           q_block q' = q_block q \<and> q_height q' = q_height q \<and>
           (endBlock q' < startBlock q' \<longleftrightarrow> startBlock q < endBlock q)"
  using assms
  by (auto simp: getBlocksParams_def andThen_def resolveRange_with_sort sort_of_with_sort
           applySort_def split: sum.splits)

theorem descending_sort_swaps_witness:
  "SortNumber 1 \<noteq> SortNumber (- 1) \<and>
   map_sum id fst (getBlocksParams sample_env
      (with_sort (SortNumber 1) (sample_request (Some ''100'') None (Some 5) None)))
     = Inr \<lparr>startBlock = 100, endBlock = 105, q_block = None, q_height = None\<rparr> \<and>
   map_sum id fst (getBlocksParams sample_env
      (with_sort (SortNumber (- 1)) (sample_request (Some ''100'') None (Some 5) None)))
     = Inr \<lparr>startBlock = 105, endBlock = 100, q_block = None, q_height = None\<rparr>"
proof -
  let ?p = "sample_request (Some ''100'') None (Some 5) None"
  let ?q = "\<lparr>startBlock = 100, endBlock = 105, q_block = None, q_height = None\<rparr>"
  let ?o = "\<lparr>o_limit = 5, o_sort = SortNumber 1, o_since = None, o_direction = None,
             o_paging = None\<rparr>"
  have x: "SortNumber 1 \<noteq> SortNumber (- 1)" by simp
  have a: "getBlocksParams sample_env (with_sort (SortNumber 1) ?p) = Inr (?q, ?o)"
    by (simp add: with_sort_def params_eval js_eval sample_eval)
  from descending_sort_swaps [OF x a] obtain q' opts' where
    d: "getBlocksParams sample_env (with_sort (SortNumber (- 1)) ?p) = Inr (q', opts')"
       "startBlock q' = 105" "endBlock q' = 100" "q_block q' = None" "q_height q' = None"
    by auto
  then have "q' = \<lparr>startBlock = 105, endBlock = 100, q_block = None, q_height = None\<rparr>"
    by (cases q') simp
  with a d(1) show ?thesis by simp
qed

text \<open>
  C2 as the specification words it fails twice over: a request with no sort argument
  (the default \<^verbatim>\<open>{ height: -1 }\<close>) is not swapped at all, and a swapped range of one
  block has \<open>startBlock\<close> equal to \<open>endBlock\<close>, not above it.
\<close>

theorem descending_sort_counterexample:
  "map_sum id fst (getBlocksParams sample_env (sample_request (Some ''100'') None (Some 5) None))
     = Inr \<lparr>startBlock = 100, endBlock = 105, q_block = None, q_height = None\<rparr> \<and>
   map_sum id fst (getBlocksParams sample_env
      (sample_request None (Some ''7'') None (Some (SortNumber (- 1)))))
     = Inr \<lparr>startBlock = 7, endBlock = 7, q_block = None, q_height = Some 7\<rparr>"
  by (simp add: params_eval js_eval sample_eval)

subsection \<open>Printing and parsing decimals\<close>




lemma show_nat_nonempty: "show_nat n \<noteq> []"
  by (subst show_nat.simps) simp



lemma show_nat_length_1: "length (show_nat n) = 1 \<longleftrightarrow> n < 10"
proof (cases "n < 10")
  case True
  then show ?thesis by (simp add: show_nat_lt10)
next
  case False
  have "length (show_nat (n div 10)) \<noteq> 0" using show_nat_nonempty by simp
  with False show ?thesis by (simp add: show_nat_ge10)
qed






















subsection \<open>Confirmations\<close>

lemmas tx_eval =
  getTransaction_def getTransaction_try_def underscore_getTransaction_def
  getBlockTimestamp_def getLocalTip_def transformBlockData_def truthy_def or0_def Let_def

text \<open>
  C1, as the code has it. \<open>blockTransform\<close> attaches \<open>t - h + 1\<close> to every block whose
  height \<open>h\<close> (\<^verbatim>\<open>block.height || block.number\<close>) is 0 or more, and a transaction that
  \<open>getTransaction\<close> resolves to carries \<open>t - h + 1\<close> whenever its block number \<open>h\<close> is
  positive, \<open>t\<close> being the height of the tip. Neither compares \<open>h\<close> with the tip, so
  the formula is applied above the tip as well; at the tip it gives 1.
\<close>

theorem confirmations_formula:
  "(blockTransform e t chain network (Some b) = Inr r \<and>
      0 \<le> (if or0 (rb_height b) \<noteq> 0 then or0 (rb_height b) else rb_number b)
     \<longrightarrow> confirmations r
           = t - (if or0 (rb_height b) \<noteq> 0 then or0 (rb_height b) else rb_number b) + 1 \<and>
         ib_height (spread r) = rb_number b)
   \<and> (fst (getTransaction e apiTransform p) = Inr (Some r') \<longrightarrow>
        (\<exists>txId w3 tip tx.
           gt_txId p = Some txId \<and>
           getWeb3_outcome e (Some Historical) = Inr w3 \<and>
           getLocalTip e (gt_chain p) (gt_network p) False = Inr tip \<and>
           eth_getTransaction w3 txId = Inr (Some tx) \<and>
           (\<forall>h. tx_blockNumber tx = Some h \<and> 0 < h \<longrightarrow>
                confirmations r' = ib_height tip - h + 1)))"
proof (intro conjI impI)
  assume a: "blockTransform e t chain network (Some b) = Inr r \<and>
      0 \<le> (if or0 (rb_height b) \<noteq> 0 then or0 (rb_height b) else rb_number b)"
  then show "confirmations r
      = t - (if or0 (rb_height b) \<noteq> 0 then or0 (rb_height b) else rb_number b) + 1"
    by (auto simp: blockTransform_def Let_def split: if_splits)
  from a show "ib_height (spread r) = rb_number b"
    by (auto simp: blockTransform_def Let_def transformBlockData_def)
next
  assume "fst (getTransaction e apiTransform p) = Inr (Some r')"
  then show "\<exists>txId w3 tip tx.
           gt_txId p = Some txId \<and>
           getWeb3_outcome e (Some Historical) = Inr w3 \<and>
           getLocalTip e (gt_chain p) (gt_network p) False = Inr tip \<and>
           eth_getTransaction w3 txId = Inr (Some tx) \<and>
           (\<forall>h. tx_blockNumber tx = Some h \<and> 0 < h \<longrightarrow>
                confirmations r' = ib_height tip - h + 1)"
    by (auto simp: getTransaction_def getTransaction_try_def underscore_getTransaction_def
             Let_def or0_def
             split: option.splits sum.splits if_splits prod.splits)
qed

theorem confirmations_formula_witness:
  "map_sum id confirmations
     (blockTransform sample_env 110 (Some ''ETH'') (Some ''mainnet'') (Some (sample_block 110)))
     = Inr 1 \<and>
   map_sum id (map_option confirmations)
     (fst (getTransaction sample_env (\<lambda>x. x)
        \<lparr>gt_chain = Some ''ETH'', gt_network = Some ''mainnet'', gt_txId = Some ''0xabc''\<rparr>))
     = Inr (Some (110 - 100 + 1))"
proof -
  let ?p = "\<lparr>gt_chain = Some ''ETH'', gt_network = Some ''mainnet'', gt_txId = Some ''0xabc''\<rparr>"
  obtain r where r: "blockTransform sample_env 110 (Some ''ETH'') (Some ''mainnet'')
      (Some (sample_block 110)) = Inr r"
    by (simp add: blockTransform_def Let_def)
  have h: "0 \<le> (if or0 (rb_height (sample_block 110)) \<noteq> 0
                 then or0 (rb_height (sample_block 110)) else rb_number (sample_block 110))"
    by (simp add: sample_block_def or0_def)
  obtain r' where r': "fst (getTransaction sample_env (\<lambda>x. x) ?p) = Inr (Some r')"
    by (simp add: tx_eval sample_eval)
  note inst = confirmations_formula [of sample_env 110 "Some ''ETH''" "Some ''mainnet''"
      "sample_block 110" r "\<lambda>x. x" ?p r']
  from inst r h have c1: "confirmations r = 1"
    by (simp add: sample_block_def or0_def)
  from inst r' obtain txId w3 tip tx where
    w: "gt_txId ?p = Some txId" "getWeb3_outcome sample_env (Some Historical) = Inr w3"
       "getLocalTip sample_env (gt_chain ?p) (gt_network ?p) False = Inr tip"
       "eth_getTransaction w3 txId = Inr (Some tx)"
       "\<forall>h. tx_blockNumber tx = Some h \<and> 0 < h \<longrightarrow> confirmations r' = ib_height tip - h + 1"
    by blast
  from w(1) have "txId = ''0xabc''" by simp
  moreover from w(2) have "w3 = sample_web3" by (simp add: sample_env_def)
  moreover from w(3) have "ib_height tip = 110"
    by (auto simp: getLocalTip_def transformBlockData_def sample_eval)
  ultimately have "tx_blockNumber tx = Some 100 \<and> ib_height tip = 110"
    using w(4) by (auto simp: sample_web3_def sample_tx_def)
  with w(5) have c2: "confirmations r' = 110 - 100 + 1" by simp
  from r c1 r' c2 show ?thesis by simp
qed

text \<open>
  C1 as the specification words it fails: a block two above a tip at 5 gets the value
  \<open>-1\<close>, so the formula is computed above the tip; and a transaction in block 0 gets 0
  confirmations under a tip at 110, where the formula gives 111.
\<close>

theorem confirmations_counterexample:
  "map_sum id confirmations
     (blockTransform sample_env 5 (Some ''ETH'') (Some ''mainnet'') (Some (sample_block 7)))
     = Inr (- 1) \<and>
   map_sum id (map_option confirmations)
     (fst (getTransaction sample_env (\<lambda>x. x)
        \<lparr>gt_chain = Some ''ETH'', gt_network = Some ''mainnet'', gt_txId = Some ''0xgen''\<rparr>))
     = Inr (Some 0)"
  by (simp add: blockTransform_def tx_eval sample_eval)

subsection \<open>Fetching a transaction\<close>

text \<open>
  C5, as the code has it. When \<open>txId\<close> is not a string, or the chain or the network is
  missing, \<open>getTransaction\<close> makes no call at all, logs the error
  \<^verbatim>\<open>Missing required param\<close> and resolves to \<^verbatim>\<open>undefined\<close>. When the transaction does
  not exist upstream it resolves to \<^verbatim>\<open>undefined\<close> as well, with nothing logged. No
  call of \<open>getTransaction\<close> throws to its caller.
\<close>

theorem getTransaction_validation_and_not_found:
  "(gt_txId p = None \<or> \<not> truthy (gt_chain p) \<or> \<not> truthy (gt_network p) \<longrightarrow>
      getTransaction e apiTransform p = (Inr None, [Log_error MissingRequiredParam]))
   \<and> (gt_txId p = Some txId \<and> truthy (gt_chain p) \<and> truthy (gt_network p) \<and>
      getWeb3_outcome e (Some Historical) = Inr w3 \<and>
      getLocalTip e (gt_chain p) (gt_network p) False = Inr tip \<and>
      eth_getTransaction w3 txId = Inr None \<longrightarrow>
      getTransaction e apiTransform p
        = (Inr None, [Call_getWeb3, Call_getLocalTip, Call_getTransaction txId]))
   \<and> (\<exists>r. fst (getTransaction e apiTransform p) = Inr r)"
  by (auto simp: getTransaction_def getTransaction_try_def underscore_getTransaction_def Let_def
           split: option.splits sum.splits prod.splits)

theorem getTransaction_validation_and_not_found_witness:
  "getTransaction sample_env (\<lambda>x. x)
      \<lparr>gt_chain = Some ''ETH'', gt_network = Some ''mainnet'', gt_txId = None\<rparr>
     = (Inr None, [Log_error MissingRequiredParam]) \<and>
   getTransaction sample_env (\<lambda>x. x)
      \<lparr>gt_chain = Some ''ETH'', gt_network = Some ''mainnet'', gt_txId = Some ''0xdef''\<rparr>
     = (Inr None, [Call_getWeb3, Call_getLocalTip, Call_getTransaction ''0xdef''])"
proof -
  let ?p1 = "\<lparr>gt_chain = Some ''ETH'', gt_network = Some ''mainnet'', gt_txId = None\<rparr>"
  let ?p2 = "\<lparr>gt_chain = Some ''ETH'', gt_network = Some ''mainnet'',
              gt_txId = Some ''0xdef''\<rparr>"
  let ?tip = "transformBlockData sample_env (Some ''ETH'') (Some ''mainnet'')
                (sample_block 110) False"
  have h1: "gt_txId ?p1 = None \<or> \<not> truthy (gt_chain ?p1) \<or> \<not> truthy (gt_network ?p1)"
    by simp
  have r1: "getTransaction sample_env (\<lambda>x. x) ?p1 = (Inr None, [Log_error MissingRequiredParam])"
    using getTransaction_validation_and_not_found
      [where p = ?p1 and e = sample_env and apiTransform = "\<lambda>x. x"] h1 by blast
  have h2: "gt_txId ?p2 = Some ''0xdef'' \<and> truthy (gt_chain ?p2) \<and> truthy (gt_network ?p2) \<and>
      getWeb3_outcome sample_env (Some Historical) = Inr sample_web3 \<and>
      getLocalTip sample_env (gt_chain ?p2) (gt_network ?p2) False = Inr ?tip \<and>
      eth_getTransaction sample_web3 ''0xdef'' = Inr None"
    by (simp add: truthy_def getLocalTip_def sample_env_def sample_web3_def)
  have r2: "getTransaction sample_env (\<lambda>x. x) ?p2
      = (Inr None, [Call_getWeb3, Call_getLocalTip, Call_getTransaction ''0xdef''])"
    using getTransaction_validation_and_not_found
      [where p = ?p2 and txId = "''0xdef''" and e = sample_env and ?w3.0 = sample_web3
         and tip = ?tip and apiTransform = "\<lambda>x. x"] h2 by blast
  from r1 r2 show ?thesis by simp
qed

text \<open>
  C5 as the specification words it fails: with the chain missing, nothing is raised to
  the caller; the call resolves to \<^verbatim>\<open>undefined\<close>, the value of a transaction that was
  not found.
\<close>

theorem getTransaction_missing_chain_counterexample:
  "getTransaction sample_env (\<lambda>x. x)
      \<lparr>gt_chain = None, gt_network = Some ''mainnet'', gt_txId = Some ''0xabc''\<rparr>
     = (Inr None, [Log_error MissingRequiredParam])"
  by (simp add: getTransaction_def getTransaction_try_def truthy_def)

subsection \<open>Fetching a batch of blocks\<close>

lemma lodash_range_descending: "lodash_range 105 101 = [105, 104, 103, 102]"
  by (simp add: lodash_range_def upt_conv_Cons)

text \<open>
  C4. \<open>getBlocks\<close> should resolve to the fetched blocks mapped into canonical records
  with their confirmations. For the cursor \<^verbatim>\<open>"100"\<close> with limit 2 under a tip at 110 it
  resolves to the three blocks as the peer sent them; the records that \<open>blockTransform\<close>
  makes of them, with 11, 10 and 9 confirmations, are built and dropped.
\<close>

theorem getBlocks_returns_raw_blocks:
  "getBlocks sample_env (sample_request (Some ''100'') None (Some 2) None)
     = ResolvedBlocks [Some (sample_block 100), Some (sample_block 101), Some (sample_block 102)] \<and>
   map (map_sum id confirmations)
     (discardedTransforms sample_env 110 (sample_request (Some ''100'') None (Some 2) None)
        (map (\<lambda>n. eth_getBlock sample_web3 (ByNumber n)) [100, 101, 102]))
     = [Inr 11, Inr 10, Inr 9]"
  by (simp add: getBlocks_def discardedTransforms_def blockTransform_def params_eval js_eval
      sample_eval lodash_range_def)

text \<open>A batch with a failed fetch resolves to the error object; nothing is thrown.\<close>

lemma getBlocks_failed_fetch:
  "getBlocks failing_env (sample_request (Some ''100'') None (Some 2) None)
     = ResolvedError (Upstream ''timeout'')"
  by (simp add: getBlocks_def failing_env_def params_eval js_eval sample_eval lodash_range_def)

text \<open>
  A swapped range is counted downwards from \<open>startBlock\<close> and stops two heights short
  of the lower bound.
\<close>

lemma getBlocks_descending:
  "getBlocks sample_env (sample_request (Some ''100'') None (Some 5) (Some (SortNumber (- 1))))
     = ResolvedBlocks [Some (sample_block 105), Some (sample_block 104),
                       Some (sample_block 103), Some (sample_block 102)]"
  by (simp add: getBlocks_def params_eval js_eval sample_eval lodash_range_def upt_conv_Cons)

subsection \<open>Acquiring a connection\<close>

lemmas pool_eval =
  getWeb3_def getWeb3_loop.simps sample_pool_env_def dead_rpc_def live_rpc_def fresh_rpc_def
  probe_wins_def splice1_def Let_def

text \<open>A healthy handle at the head of the pool is returned and the pool is left alone.\<close>

lemma getWeb3_first_responsive:
  "getWeb3 sample_pool_env (Some Historical) [live_rpc, dead_rpc]
     = (Inr live_rpc, [live_rpc, dead_rpc])"
  by (simp add: pool_eval)

text \<open>
  C9. With a pool of an unresponsive handle followed by a healthy one, both of the
  requested capability, the acquisition should remove the first and return the second.
  The code removes the first while it iterates over the same array, which moves the
  healthy handle under the index already visited: the loop ends without probing it, a
  new connection is made, appended and returned.
\<close>

theorem getWeb3_skips_handle_after_removal:
  "getWeb3 sample_pool_env (Some Historical) [dead_rpc, live_rpc]
     = (Inr (fresh_rpc\<lparr>rpc_dataType := Historical\<rparr>),
        [live_rpc, fresh_rpc\<lparr>rpc_dataType := Historical\<rparr>])"
  by (simp add: pool_eval)

end
